theory Spec2Isabelle
  imports Main "HOL-Library.Word"
begin

section \<open>Python values, exceptions and the interpreter's fixed tables\<close>

text \<open>
  A Python \<open>str\<close> is a sequence of Unicode code points; it is modelled as the list of
  their numbers. \<open>cps\<close> turns an ASCII literal of the source into that list.
\<close>

type_synonym pystr = "nat list"

definition cps :: "string \<Rightarrow> pystr" where
  "cps s = map of_char s"

text \<open>
  Session state and confirmation payloads hold JSON-shaped values: that is what the
  session store keeps and what the confirmation channel delivers. A dict is an
  association list read with \<open>map_of\<close>; a float is its 64 bits.
\<close>

datatype pyval =
    PNone
  | PBool bool
  | PInt int
  | PFloat "64 word"
  | PStr pystr
  | PList "pyval list"
  | PDict "(pystr \<times> pyval) list"

type_synonym pydict = "(pystr \<times> pyval) list"

text \<open>
  An exception is its class and what it carries. An exception raised by the source
  carries the text the source gave it (\<open>Text\<close>); one raised by the interpreter or
  by the framework records what went wrong, and its raiser words it.
\<close>

type_synonym path = "pystr list"

datatype exc_class =
    KeyError | TypeError | AttributeError
  | ValueError | UnicodeEncodeError | UnicodeDecodeError
  | OSError | FileNotFoundError | PermissionError
  | Exception

datatype exc_info =
    Text pystr
  | MissingKey pystr            \<comment> \<open>\<open>d[k]\<close> on a dict without the key \<open>k\<close>\<close>
  | BadSubscript pyval pystr    \<comment> \<open>\<open>v[k]\<close> on a value that a \<open>str\<close> cannot index\<close>
  | NoAttribute pyval pystr     \<comment> \<open>\<open>v.name\<close> on a value without that attribute\<close>
  | CannotEncode pystr          \<comment> \<open>a \<open>str\<close> that UTF-8 refuses\<close>
  | NoSuchFile path             \<comment> \<open>\<open>open\<close> on a path that names no file\<close>
  | NoArtifactService           \<comment> \<open>\<open>save_artifact\<close> with no artifact service configured\<close>

datatype pyexc = Exc (exc_class: exc_class) (exc_info: exc_info)

text \<open>
  \<open>is_subclass c d\<close>: an \<open>except d\<close> clause catches an exception of class \<open>c\<close>.
  Every class here derives from \<open>Exception\<close>; the Unicode errors derive from
  \<open>ValueError\<close>, the file errors from \<open>OSError\<close>.
\<close>

fun is_subclass :: "exc_class \<Rightarrow> exc_class \<Rightarrow> bool" where
  "is_subclass c Exception = True"
| "is_subclass UnicodeEncodeError ValueError = True"
| "is_subclass UnicodeDecodeError ValueError = True"
| "is_subclass FileNotFoundError OSError = True"
| "is_subclass PermissionError OSError = True"
| "is_subclass c d = (c = d)"

text \<open>
  What the interpreter fixes and the source only uses is a parameter of the model:
  the upper-case mapping of the code points beyond ASCII, \<open>str()\<close> of a value that is
  not a \<open>str\<close>, \<open>str()\<close> of a path, and the wording of the exceptions the source does
  not raise itself.
  Every theorem below holds for all of them.
\<close>

record pyrt =
  upper_tbl :: "nat \<Rightarrow> nat list"
  str_of_val :: "pyval \<Rightarrow> pystr"
  str_of_path :: "path \<Rightarrow> pystr"
  exc_text :: "exc_info \<Rightarrow> pystr"

text \<open>\<open>str.upper()\<close>: code point by code point; on ASCII, \<open>a\<close>..\<open>z\<close> move to \<open>A\<close>..\<open>Z\<close>.\<close>

definition upper_cp :: "pyrt \<Rightarrow> nat \<Rightarrow> nat list" where
  "upper_cp rt c =
     (if c < 128 then [if 97 \<le> c \<and> c \<le> 122 then c - 32 else c] else upper_tbl rt c)"

definition py_upper :: "pyrt \<Rightarrow> pystr \<Rightarrow> pystr" where
  "py_upper rt s = concat (map (upper_cp rt) s)"

text \<open>\<open>v.upper()\<close> on any value: only a \<open>str\<close> has the method among JSON-shaped values.\<close>

definition call_upper :: "pyrt \<Rightarrow> pyval \<Rightarrow> pyexc + pyval" where
  "call_upper rt v =
     (case v of
        PStr s \<Rightarrow> Inr (PStr (py_upper rt s))
      | _ \<Rightarrow> Inl (Exc AttributeError (NoAttribute v (cps ''upper''))))"

text \<open>\<open>v[k]\<close> with a \<open>str\<close> key \<open>k\<close>.\<close>

definition subscript :: "pyval \<Rightarrow> pystr \<Rightarrow> pyexc + pyval" where
  "subscript v k =
     (case v of
        PDict d \<Rightarrow>
          (case map_of d k of
             None \<Rightarrow> Inl (Exc KeyError (MissingKey k))
           | Some x \<Rightarrow> Inr x)
      | _ \<Rightarrow> Inl (Exc TypeError (BadSubscript v k)))"

text \<open>\<open>str(e)\<close> and the formatting of a value inside an f-string.\<close>

definition str_exc :: "pyrt \<Rightarrow> pyexc \<Rightarrow> pystr" where
  "str_exc rt e = (case exc_info e of Text s \<Rightarrow> s | i \<Rightarrow> exc_text rt i)"

definition format_val :: "pyrt \<Rightarrow> pyval \<Rightarrow> pystr" where
  "format_val rt v = (case v of PStr s \<Rightarrow> s | _ \<Rightarrow> str_of_val rt v)"

section \<open>The tool context\<close>

record tool_confirmation =
  hint :: pystr
  confirmed :: bool
  payload :: pyval

record blob =
  mime_type :: pystr
  data :: "8 word list"

datatype artifact_service =
    Service "pystr \<Rightarrow> blob list"   \<comment> \<open>the versions saved under each filename\<close>
  | Faulty pyexc                     \<comment> \<open>a service whose save fails with this exception\<close>

record tool_context =
  state :: "pystr \<rightharpoonup> pyval"
  tool_confirmation :: "tool_confirmation option"
  requested :: "tool_confirmation list"
  artifact_service :: "artifact_service option"

text \<open>\<open>state.get(key, default)\<close>\<close>

definition state_get :: "(pystr \<rightharpoonup> pyval) \<Rightarrow> pystr \<Rightarrow> pyval \<Rightarrow> pyval" where
  "state_get m k d = (case m k of None \<Rightarrow> d | Some v \<Rightarrow> v)"

text \<open>
  Modelled from the spec: \<open>request_confirmation\<close> belongs to the agent framework, which
  is not part of the repository. By the specification it registers a pending request
  carrying the hint and the example reply shape; \<open>requested\<close> lists the requests
  registered through this context, in order.
\<close>

definition request_confirmation :: "tool_context \<Rightarrow> pystr \<Rightarrow> pyval \<Rightarrow> tool_context" where
  "request_confirmation ctx h p =
     ctx\<lparr>requested := requested ctx @ [\<lparr>hint = h, confirmed = False, payload = p\<rparr>]\<rparr>"

section \<open>The confirmation-gated input collector\<close>

definition SKIP :: pystr where
  "SKIP = cps ''SKIP''"

definition skip_text :: pystr where
  "skip_text = cps ''User chose to proceed without additional information''"

text \<open>
  The body of the \<open>try\<close> block. A write to the session state that happened before an
  exception stays: the context is returned with the exception.
\<close>

definition gap_asker_try :: "pyrt \<Rightarrow> tool_confirmation \<Rightarrow> tool_context \<Rightarrow> (pyexc + pydict) \<times> tool_context" where
  "gap_asker_try rt tc ctx =
     (case subscript (payload tc) (cps ''user_response'') of
        Inl e \<Rightarrow> (Inl e, ctx)
      | Inr user_response \<Rightarrow>
          (let user_input = state_get (state ctx) (cps ''user_input'') (PStr []);
               user_input = user_response;
               ctx1 = ctx\<lparr>state := (state ctx)(cps ''user_input'' \<mapsto> user_input)\<rparr>
           in case call_upper rt user_response of
                Inl e \<Rightarrow> (Inl e, ctx1)
              | Inr u \<Rightarrow>
                  if u = PStr SKIP
                  then (Inr [(cps ''status'', PStr (cps ''skipped'')),
                             (cps ''user_input'', PStr skip_text),
                             (cps ''message'', PStr (cps ''Proceeding with current resume...''))],
                        ctx1)
                  else (Inr [(cps ''status'', PStr (cps ''info_collected'')),
                             (cps ''user_input'', user_response)],
                        ctx1)))"

definition resume_gap_asker_tool :: "pyrt \<Rightarrow> tool_context \<Rightarrow> (pyexc + pydict) \<times> tool_context" where
  "resume_gap_asker_tool rt ctx =
     (let critique = state_get (state ctx) (cps ''critique'') (PStr [])
      in case tool_confirmation ctx of
           None \<Rightarrow>
             (let hint = cps ''To improve your resume, please provide: '' @ format_val rt critique
                         @ [10, 10]
                         @ cps ''You can also type 'SKIP' to proceed with current resume.'';
                  ctx1 = request_confirmation ctx hint
                           (PDict [(cps ''user_response'', PStr (cps ''your input here''))])
              in (Inr [(cps ''status'', PStr (cps ''awaiting_user_input'')),
                       (cps ''message'', PStr (cps ''Waiting for user response...''))],
                  ctx1))
         | Some tc \<Rightarrow>
             (case gap_asker_try rt tc ctx of
                (Inr r, ctx1) \<Rightarrow> (Inr r, ctx1)
              | (Inl e, ctx1) \<Rightarrow>
                  if is_subclass (exc_class e) Exception
                  then (Inr [(cps ''status'', PStr (cps ''error'')),
                             (cps ''message'', PStr (cps ''An error occurred: '' @ str_exc rt e))],
                        ctx1)
                  else (Inl e, ctx1)))"

text \<open>The \<open>status\<close> entry of a returned result; none when the call raised.\<close>

definition status_of :: "pyexc + pydict \<Rightarrow> pyval option" where
  "status_of res = (case res of Inl e \<Rightarrow> None | Inr r \<Rightarrow> map_of r (cps ''status''))"

section \<open>The template loader\<close>

text \<open>
  The file system: a path names no file (\<open>None\<close>), a file whose text can be read, or
  a file on which opening or reading fails with an exception.
\<close>

type_synonym filesystem = "path \<rightharpoonup> (pyexc + pystr)"

definition open_read :: "filesystem \<Rightarrow> path \<Rightarrow> pyexc + pystr" where
  "open_read fs p =
     (case fs p of
        None \<Rightarrow> Inl (Exc FileNotFoundError (NoSuchFile p))
      | Some r \<Rightarrow> r)"

text \<open>\<open>module_dir\<close> is \<open>Path(__file__).parent\<close>, the directory of the module.\<close>

definition get_latex_template_tool :: "pyrt \<Rightarrow> path \<Rightarrow> filesystem \<Rightarrow> pyexc + pystr" where
  "get_latex_template_tool rt module_dir fs =
     (let template_path = module_dir @ [cps ''resume.tex'']
      in case open_read fs template_path of
           Inr latex_content \<Rightarrow> Inr latex_content
         | Inl e \<Rightarrow>
             if is_subclass (exc_class e) FileNotFoundError
             then Inl (Exc FileNotFoundError
                        (Text (cps ''LaTeX template not found at: '' @ str_of_path rt template_path)))
             else if is_subclass (exc_class e) Exception
             then Inl (Exc Exception
                        (Text (cps ''Error reading LaTeX template: '' @ str_exc rt e)))
             else Inl e)"

section \<open>The artifact writer\<close>

text \<open>\<open>str.encode('utf-8')\<close>: a surrogate code point is refused, every other code point
  has its one to four bytes.\<close>

definition is_surrogate :: "nat \<Rightarrow> bool" where
  "is_surrogate c = (0xD800 \<le> c \<and> c < 0xE000)"

definition utf8_cp :: "nat \<Rightarrow> 8 word list" where
  "utf8_cp c =
     (if c < 0x80 then [of_nat c]
      else if c < 0x800 then [of_nat (0xC0 + c div 64), of_nat (0x80 + c mod 64)]
      else if c < 0x10000
      then [of_nat (0xE0 + c div 4096), of_nat (0x80 + c div 64 mod 64), of_nat (0x80 + c mod 64)]
      else [of_nat (0xF0 + c div 262144), of_nat (0x80 + c div 4096 mod 64),
            of_nat (0x80 + c div 64 mod 64), of_nat (0x80 + c mod 64)])"

definition encode_utf8 :: "pystr \<Rightarrow> pyexc + 8 word list" where
  "encode_utf8 s =
     (if list_ex is_surrogate s then Inl (Exc UnicodeEncodeError (CannotEncode s))
      else Inr (concat (map utf8_cp s)))"

text \<open>\<open>str()\<close> of an \<open>int\<close>: its decimal digits, after a minus sign when negative.\<close>

fun dec_nat :: "nat \<Rightarrow> pystr" where
  "dec_nat n = (if n < 10 then [48 + n] else dec_nat (n div 10) @ [48 + n mod 10])"

declare dec_nat.simps [simp del]

definition str_int :: "int \<Rightarrow> pystr" where
  "str_int i = (if i < 0 then 45 # dec_nat (nat (- i)) else dec_nat (nat i))"

text \<open>
  Modelled from the spec: \<open>save_artifact\<close> belongs to the agent framework, which is
  not part of the repository. By the specification it persists the payload under the
  filename with a version number that increases per filename and returns that number,
  and it fails with a configuration error when no service is configured (a
  \<open>ValueError\<close>, the class the source tests for), or with whatever a faulty service
  raises. The first version of a filename is 0.
\<close>

definition save_artifact :: "tool_context \<Rightarrow> pystr \<Rightarrow> blob \<Rightarrow> (pyexc + int) \<times> tool_context" where
  "save_artifact ctx filename artifact =
     (case artifact_service ctx of
        None \<Rightarrow> (Inl (Exc ValueError NoArtifactService), ctx)
      | Some (Faulty e) \<Rightarrow> (Inl e, ctx)
      | Some (Service st) \<Rightarrow>
          (Inr (int (length (st filename))),
           ctx\<lparr>artifact_service := Some (Service (st(filename := st filename @ [artifact])))\<rparr>))"

text \<open>
  The result of the awaited coroutine: what it returns or raises, the context after it,
  and the lines it printed. An artifact part with inline data only is its blob. A
  function that ends without \<open>return\<close> returns \<open>None\<close>.
\<close>

definition save_generated_resume_latex ::
    "pyrt \<Rightarrow> tool_context \<Rightarrow> pystr \<Rightarrow> (pyexc + pyval) \<times> tool_context \<times> pystr list" where
  "save_generated_resume_latex rt ctx latex_content =
     (case encode_utf8 latex_content of
        Inl e \<Rightarrow> (Inl e, ctx, [])
      | Inr latex_bytes \<Rightarrow>
          (let artifact_part = \<lparr>mime_type = cps ''text/plain'', data = latex_bytes\<rparr>;
               filename = cps ''generated_resume_latex.tex''
           in case save_artifact ctx filename artifact_part of
                (Inr version, ctx1) \<Rightarrow>
                  (Inr (PDict
                     [(cps ''status'', PStr (cps ''success'')),
                      (cps ''message'',
                       PStr (cps ''File '' @ [39] @ filename @ [39] @ cps '' (version ''
                             @ str_int version
                             @ cps '') has been created and is now available for download.''))]),
                   ctx1, [])
              | (Inl e, ctx1) \<Rightarrow>
                  if is_subclass (exc_class e) ValueError
                  then (Inr PNone, ctx1,
                        [cps ''Error saving LaTeX artifact: '' @ str_exc rt e
                         @ cps ''. Is ArtifactService configured in Runner?''])
                  else if is_subclass (exc_class e) Exception
                  then (Inr PNone, ctx1,
                        [cps ''An unexpected error occurred during LaTeX artifact save: ''
                         @ str_exc rt e])
                  else (Inl e, ctx1, [])))"

section \<open>The specification's comparison\<close>

text \<open>
  The specification compares the reply to the literal \<open>SKIP\<close> case-insensitively: two
  strings are equal in that sense when they agree code point by code point once every
  ASCII capital is replaced by its small letter.
\<close>

definition fold_case_cp :: "nat \<Rightarrow> nat" where
  "fold_case_cp c = (if 65 \<le> c \<and> c \<le> 90 then c + 32 else c)"

definition equal_ignoring_case :: "pystr \<Rightarrow> pystr \<Rightarrow> bool" where
  "equal_ignoring_case a b = (map fold_case_cp a = map fold_case_cp b)"

section \<open>Concrete inputs\<close>

text \<open>An interpreter whose tables are the simplest ones, for running the model.\<close>

definition rt0 :: pyrt where
  "rt0 = \<lparr>upper_tbl = (\<lambda>c. [c]), str_of_val = (\<lambda>v. []),
          str_of_path = (\<lambda>p. concat (map (\<lambda>name. 47 # name) p)),
          exc_text = (\<lambda>i. cps ''fault'')\<rparr>"

definition critique_state :: "pystr \<rightharpoonup> pyval" where
  "critique_state =
     [cps ''critique'' \<mapsto> PStr (cps ''Add a quantified achievement to Project X'')]"

definition first_ctx :: tool_context where
  "first_ctx = \<lparr>state = critique_state, tool_confirmation = None, requested = [],
                artifact_service = None\<rparr>"

definition reply_of :: "pyval \<Rightarrow> tool_confirmation" where
  "reply_of p = \<lparr>hint = [], confirmed = True, payload = p\<rparr>"

definition reply_ctx :: "pyval \<Rightarrow> tool_context" where
  "reply_ctx p = \<lparr>state = critique_state, tool_confirmation = Some (reply_of p),
                  requested = [], artifact_service = None\<rparr>"

definition team_reply :: pystr where
  "team_reply = cps ''I led a 3-person team and cut load time 40%''"

definition service_ctx :: "artifact_service option \<Rightarrow> tool_context" where
  "service_ctx svc = \<lparr>state = Map.empty, tool_confirmation = None, requested = [],
                      artifact_service = svc\<rparr>"

section \<open>Properties of the collector\<close>

lemma SKIP_cps: "SKIP = [83, 75, 73, 80]"
  by (simp add: SKIP_def cps_def)

lemma upper_cp_fold:
  assumes "fold_case_cp a = fold_case_cp b" and "b < 128"
  shows "upper_cp rt a = upper_cp rt b"
  using assms by (auto simp: fold_case_cp_def upper_cp_def split: if_splits)

lemma py_upper_fold:
  assumes "map fold_case_cp r = map fold_case_cp s" and "\<forall>c \<in> set s. c < 128"
  shows "py_upper rt r = py_upper rt s"
  using assms
proof (induction r arbitrary: s)
  case Nil
  then show ?case by (simp add: py_upper_def)
next
  case (Cons a r)
  then obtain b s' where s: "s = b # s'" by (cases s) auto
  with Cons.prems have "fold_case_cp a = fold_case_cp b" "b < 128"
    "map fold_case_cp r = map fold_case_cp s'" "\<forall>c \<in> set s'. c < 128"
    by auto
  then have "upper_cp rt a = upper_cp rt b" "py_upper rt r = py_upper rt s'"
    using upper_cp_fold Cons.IH by blast+
  then show ?case by (simp add: s py_upper_def)
qed

lemma py_upper_SKIP: "py_upper rt SKIP = SKIP"
  by (simp add: SKIP_cps py_upper_def upper_cp_def)

lemma equal_ignoring_case_SKIP:
  assumes "equal_ignoring_case r SKIP"
  shows "py_upper rt r = SKIP"
proof -
  have "\<forall>c \<in> set SKIP. c < 128" by (simp add: SKIP_cps)
  with assms have "py_upper rt r = py_upper rt SKIP"
    unfolding equal_ignoring_case_def by (rule py_upper_fold)
  then show ?thesis by (simp add: py_upper_SKIP)
qed

lemma gap_asker_try_str:
  assumes "subscript (payload tc) (cps ''user_response'') = Inr (PStr r)"
  shows "gap_asker_try rt tc ctx =
     (if py_upper rt r = SKIP
      then (Inr [(cps ''status'', PStr (cps ''skipped'')),
                 (cps ''user_input'', PStr skip_text),
                 (cps ''message'', PStr (cps ''Proceeding with current resume...''))],
            ctx\<lparr>state := (state ctx)(cps ''user_input'' \<mapsto> PStr r)\<rparr>)
      else (Inr [(cps ''status'', PStr (cps ''info_collected'')),
                 (cps ''user_input'', PStr r)],
            ctx\<lparr>state := (state ctx)(cps ''user_input'' \<mapsto> PStr r)\<rparr>))"
  using assms by (simp add: gap_asker_try_def call_upper_def Let_def)

lemma gap_asker_try_nonstr:
  assumes "subscript (payload tc) (cps ''user_response'') = Inr v" and "\<forall>s. v \<noteq> PStr s"
  shows "gap_asker_try rt tc ctx =
     (Inl (Exc AttributeError (NoAttribute v (cps ''upper''))),
      ctx\<lparr>state := (state ctx)(cps ''user_input'' \<mapsto> v)\<rparr>)"
  using assms by (cases v) (simp_all add: gap_asker_try_def call_upper_def Let_def)

lemma gap_asker_try_raise:
  assumes "subscript (payload tc) (cps ''user_response'') = Inl e"
  shows "gap_asker_try rt tc ctx = (Inl e, ctx)"
  using assms by (simp add: gap_asker_try_def)

lemma gap_asker_try_state:
  "state (snd (gap_asker_try rt tc ctx)) = state ctx
   \<or> (\<exists>v. state (snd (gap_asker_try rt tc ctx)) = (state ctx)(cps ''user_input'' \<mapsto> v))"
  by (auto simp: gap_asker_try_def Let_def split: sum.splits)

lemma subscript_dict:
  assumes "map_of d k = Some v"
  shows "subscript (PDict d) k = Inr v"
  using assms by (simp add: subscript_def)

lemma tool_reply:
  assumes "tool_confirmation ctx = Some tc"
  shows "resume_gap_asker_tool rt ctx =
     (case gap_asker_try rt tc ctx of
        (Inr r, ctx1) \<Rightarrow> (Inr r, ctx1)
      | (Inl e, ctx1) \<Rightarrow>
          (Inr [(cps ''status'', PStr (cps ''error'')),
                (cps ''message'', PStr (cps ''An error occurred: '' @ str_exc rt e))],
           ctx1))"
  using assms by (simp add: resume_gap_asker_tool_def split: prod.splits sum.splits)

lemma tool_reply_snd:
  assumes "tool_confirmation ctx = Some tc"
  shows "snd (resume_gap_asker_tool rt ctx) = snd (gap_asker_try rt tc ctx)"
  using assms by (simp add: tool_reply split: prod.splits sum.splits)

lemma tool_first:
  assumes "tool_confirmation ctx = None"
  shows "resume_gap_asker_tool rt ctx =
     (Inr [(cps ''status'', PStr (cps ''awaiting_user_input'')),
           (cps ''message'', PStr (cps ''Waiting for user response...''))],
      ctx\<lparr>requested := requested ctx @
         [\<lparr>hint = cps ''To improve your resume, please provide: ''
                  @ format_val rt (state_get (state ctx) (cps ''critique'') (PStr []))
                  @ [10, 10]
                  @ cps ''You can also type 'SKIP' to proceed with current resume.'',
           confirmed = False,
           payload = PDict [(cps ''user_response'', PStr (cps ''your input here''))]\<rparr>]\<rparr>)"
  using assms by (simp add: resume_gap_asker_tool_def request_confirmation_def Let_def)

text \<open>
  C1: whatever the session state and the critique in it, a call with no confirmation
  reply returns a result whose status is \<open>awaiting_user_input\<close>, registers exactly one
  confirmation request (the requests are those before the call and one more) and leaves
  the session state, so also its key \<open>user_input\<close>, as it was.
\<close>

theorem first_call_awaits:
  assumes "tool_confirmation ctx = None"
  shows "fst (resume_gap_asker_tool rt ctx) =
           Inr [(cps ''status'', PStr (cps ''awaiting_user_input'')),
                (cps ''message'', PStr (cps ''Waiting for user response...''))]
       \<and> requested (snd (resume_gap_asker_tool rt ctx)) =
           requested ctx @
           [\<lparr>hint = cps ''To improve your resume, please provide: ''
                    @ format_val rt (state_get (state ctx) (cps ''critique'') (PStr []))
                    @ [10, 10]
                    @ cps ''You can also type 'SKIP' to proceed with current resume.'',
             confirmed = False,
             payload = PDict [(cps ''user_response'', PStr (cps ''your input here''))]\<rparr>]
       \<and> state (snd (resume_gap_asker_tool rt ctx)) = state ctx"
  using assms by (simp add: tool_first)

theorem first_call_awaits_witness:
  "tool_confirmation first_ctx = None
   \<and> fst (resume_gap_asker_tool rt0 first_ctx) =
           Inr [(cps ''status'', PStr (cps ''awaiting_user_input'')),
                (cps ''message'', PStr (cps ''Waiting for user response...''))]
   \<and> length (requested (snd (resume_gap_asker_tool rt0 first_ctx))) = 1
   \<and> state (snd (resume_gap_asker_tool rt0 first_ctx)) (cps ''user_input'') = None"
proof -
  have h: "tool_confirmation first_ctx = None" by (simp add: first_ctx_def)
  have "state first_ctx (cps ''user_input'') = None"
    by (simp add: first_ctx_def critique_state_def cps_def)
  moreover have "requested first_ctx = []" by (simp add: first_ctx_def)
  ultimately show ?thesis using h first_call_awaits [OF h, of rt0] by auto
qed

text \<open>
  C2: a reply whose field \<open>user_response\<close> is a string \<open>r\<close> with an upper-cased form
  other than \<open>SKIP\<close> gives the result \<open>{status: info_collected, user_input: r}\<close>, and
  the session state holds \<open>r\<close> under \<open>user_input\<close> afterwards.
\<close>

theorem pass_through:
  assumes "tool_confirmation ctx = Some tc"
    and "payload tc = PDict d"
    and "map_of d (cps ''user_response'') = Some (PStr r)"
    and "py_upper rt r \<noteq> SKIP"
  shows "fst (resume_gap_asker_tool rt ctx) =
           Inr [(cps ''status'', PStr (cps ''info_collected'')), (cps ''user_input'', PStr r)]
       \<and> state (snd (resume_gap_asker_tool rt ctx)) (cps ''user_input'') = Some (PStr r)"
proof -
  from assms(2,3) have "subscript (payload tc) (cps ''user_response'') = Inr (PStr r)"
    by (simp add: subscript_dict)
  with assms(4) have "gap_asker_try rt tc ctx =
      (Inr [(cps ''status'', PStr (cps ''info_collected'')), (cps ''user_input'', PStr r)],
       ctx\<lparr>state := (state ctx)(cps ''user_input'' \<mapsto> PStr r)\<rparr>)"
    by (simp add: gap_asker_try_str)
  with assms(1) show ?thesis by (simp add: tool_reply)
qed

theorem pass_through_witness:
  "py_upper rt0 team_reply \<noteq> SKIP
   \<and> fst (resume_gap_asker_tool rt0 (reply_ctx (PDict [(cps ''user_response'', PStr team_reply)]))) =
       Inr [(cps ''status'', PStr (cps ''info_collected'')), (cps ''user_input'', PStr team_reply)]
   \<and> state (snd (resume_gap_asker_tool rt0
        (reply_ctx (PDict [(cps ''user_response'', PStr team_reply)])))) (cps ''user_input'')
       = Some (PStr team_reply)"
proof -
  let ?d = "[(cps ''user_response'', PStr team_reply)]"
  have h1: "tool_confirmation (reply_ctx (PDict ?d)) = Some (reply_of (PDict ?d))"
    by (simp add: reply_ctx_def)
  have h2: "payload (reply_of (PDict ?d)) = PDict ?d"
    by (simp add: reply_of_def)
  have h3: "map_of ?d (cps ''user_response'') = Some (PStr team_reply)"
    by simp
  have h4: "py_upper rt0 team_reply \<noteq> SKIP"
    by (simp add: py_upper_def upper_cp_def team_reply_def SKIP_def cps_def)
  show ?thesis using h4 pass_through [OF h1 h2 h3 h4] by simp
qed

text \<open>
  C3: a reply string equal to \<open>SKIP\<close> case-insensitively (the case of ASCII letters
  aside, as \<open>equal_ignoring_case\<close> has it; so \<open>SKIP\<close>, \<open>skip\<close> and \<open>Skip\<close>) gives a
  result whose status is \<open>skipped\<close> and whose \<open>user_input\<close> is the fixed explanatory
  text, which is not the reply.
\<close>

theorem skip_any_case:
  assumes "tool_confirmation ctx = Some tc"
    and "payload tc = PDict d"
    and "map_of d (cps ''user_response'') = Some (PStr r)"
    and "equal_ignoring_case r SKIP"
  shows "fst (resume_gap_asker_tool rt ctx) =
           Inr [(cps ''status'', PStr (cps ''skipped'')),
                (cps ''user_input'', PStr skip_text),
                (cps ''message'', PStr (cps ''Proceeding with current resume...''))]
       \<and> skip_text \<noteq> r"
proof -
  from assms(2,3) have "subscript (payload tc) (cps ''user_response'') = Inr (PStr r)"
    by (simp add: subscript_dict)
  moreover from assms(4) have "py_upper rt r = SKIP"
    by (rule equal_ignoring_case_SKIP)
  ultimately have "fst (gap_asker_try rt tc ctx) =
      Inr [(cps ''status'', PStr (cps ''skipped'')),
           (cps ''user_input'', PStr skip_text),
           (cps ''message'', PStr (cps ''Proceeding with current resume...''))]"
    by (simp add: gap_asker_try_str)
  with assms(1) have res: "fst (resume_gap_asker_tool rt ctx) =
      Inr [(cps ''status'', PStr (cps ''skipped'')),
           (cps ''user_input'', PStr skip_text),
           (cps ''message'', PStr (cps ''Proceeding with current resume...''))]"
    by (auto simp: tool_reply split: prod.splits sum.splits)
  from assms(4) have "length (map fold_case_cp r) = length (map fold_case_cp SKIP)"
    unfolding equal_ignoring_case_def by simp
  then have "length r = 4" by (simp add: SKIP_cps)
  moreover have "length skip_text \<noteq> 4" by (simp add: skip_text_def cps_def)
  ultimately have "skip_text \<noteq> r" by auto
  with res show ?thesis by simp
qed

theorem skip_any_case_witness:
  "equal_ignoring_case (cps ''SKIP'') SKIP
   \<and> equal_ignoring_case (cps ''skip'') SKIP
   \<and> equal_ignoring_case (cps ''Skip'') SKIP
   \<and> fst (resume_gap_asker_tool rt0 (reply_ctx (PDict [(cps ''user_response'', PStr (cps ''Skip''))]))) =
       Inr [(cps ''status'', PStr (cps ''skipped'')),
            (cps ''user_input'', PStr skip_text),
            (cps ''message'', PStr (cps ''Proceeding with current resume...''))]"
proof -
  let ?d = "[(cps ''user_response'', PStr (cps ''Skip''))]"
  have h1: "tool_confirmation (reply_ctx (PDict ?d)) = Some (reply_of (PDict ?d))"
    by (simp add: reply_ctx_def)
  have h2: "payload (reply_of (PDict ?d)) = PDict ?d"
    by (simp add: reply_of_def)
  have h3: "map_of ?d (cps ''user_response'') = Some (PStr (cps ''Skip''))"
    by simp
  have h4: "equal_ignoring_case (cps ''Skip'') SKIP"
    by (simp add: equal_ignoring_case_def fold_case_cp_def SKIP_def cps_def)
  have h5: "equal_ignoring_case (cps ''SKIP'') SKIP" "equal_ignoring_case (cps ''skip'') SKIP"
    by (simp_all add: equal_ignoring_case_def fold_case_cp_def SKIP_def cps_def)
  show ?thesis using h4 h5 skip_any_case [OF h1 h2 h3 h4, of rt0] by simp
qed

lemma status_of_result: "status_of (Inr ((cps ''status'', v) # r)) = Some v"
  by (simp add: status_of_def)

lemma subscript_no_field:
  assumes "(\<forall>d. p \<noteq> PDict d) \<or> (\<exists>d. p = PDict d \<and> map_of d k = None)"
  shows "\<exists>e. subscript p k = Inl e"
  using assms by (cases p) (auto simp: subscript_def)

lemma tool_error:
  assumes "tool_confirmation ctx = Some tc" and "gap_asker_try rt tc ctx = (Inl e, ctx1)"
  shows "resume_gap_asker_tool rt ctx =
     (Inr [(cps ''status'', PStr (cps ''error'')),
           (cps ''message'', PStr (cps ''An error occurred: '' @ str_exc rt e))],
      ctx1)"
  using assms by (simp add: tool_reply)

text \<open>
  C4 as stated fails: after the reply \<open>SKIP\<close> the session state holds the literal
  \<open>SKIP\<close> under \<open>user_input\<close>.
\<close>

theorem skip_state_counterexample:
  "state (snd (resume_gap_asker_tool rt0
      (reply_ctx (PDict [(cps ''user_response'', PStr (cps ''SKIP''))])))) (cps ''user_input'')
   = Some (PStr (cps ''SKIP''))"
  by (simp add: resume_gap_asker_tool_def gap_asker_try_def reply_ctx_def reply_of_def
      subscript_def call_upper_def Let_def)

text \<open>
  C4, amended: after the reply \<open>{user_response: SKIP}\<close> the session state holds the
  reply itself, the literal \<open>SKIP\<close>, under \<open>user_input\<close>; the fixed explanatory text,
  which differs from it, is the \<open>user_input\<close> entry of the returned result only.
\<close>

theorem skip_state_keeps_reply:
  assumes "tool_confirmation ctx = Some tc"
    and "payload tc = PDict [(cps ''user_response'', PStr SKIP)]"
  shows "state (snd (resume_gap_asker_tool rt ctx)) (cps ''user_input'') = Some (PStr SKIP)
       \<and> fst (resume_gap_asker_tool rt ctx) =
           Inr [(cps ''status'', PStr (cps ''skipped'')),
                (cps ''user_input'', PStr skip_text),
                (cps ''message'', PStr (cps ''Proceeding with current resume...''))]
       \<and> skip_text \<noteq> SKIP"
proof -
  from assms(2) have "subscript (payload tc) (cps ''user_response'') = Inr (PStr SKIP)"
    by (simp add: subscript_def)
  then have "gap_asker_try rt tc ctx =
      (Inr [(cps ''status'', PStr (cps ''skipped'')),
            (cps ''user_input'', PStr skip_text),
            (cps ''message'', PStr (cps ''Proceeding with current resume...''))],
       ctx\<lparr>state := (state ctx)(cps ''user_input'' \<mapsto> PStr SKIP)\<rparr>)"
    by (simp add: gap_asker_try_str py_upper_SKIP)
  moreover have "skip_text \<noteq> SKIP"
    by (simp add: skip_text_def SKIP_def cps_def)
  ultimately show ?thesis using assms(1) by (simp add: tool_reply)
qed

theorem skip_state_keeps_reply_witness:
  "payload (reply_of (PDict [(cps ''user_response'', PStr SKIP)]))
     = PDict [(cps ''user_response'', PStr SKIP)]
   \<and> state (snd (resume_gap_asker_tool rt0
        (reply_ctx (PDict [(cps ''user_response'', PStr SKIP)])))) (cps ''user_input'')
     = Some (PStr [83, 75, 73, 80])"
proof -
  let ?p = "PDict [(cps ''user_response'', PStr SKIP)]"
  have h1: "tool_confirmation (reply_ctx ?p) = Some (reply_of ?p)"
    by (simp add: reply_ctx_def)
  have h2: "payload (reply_of ?p) = ?p"
    by (simp add: reply_of_def)
  show ?thesis using h2 skip_state_keeps_reply [OF h1 h2, of rt0] by (simp add: SKIP_cps)
qed

text \<open>
  C5 as stated fails: a reply whose field \<open>user_response\<close> is the number 5 gives the
  status \<open>error\<close>, yet \<open>user_input\<close>, absent before the call, holds 5 after it.
\<close>

theorem malformed_reply_counterexample:
  "status_of (fst (resume_gap_asker_tool rt0
      (reply_ctx (PDict [(cps ''user_response'', PInt 5)])))) = Some (PStr (cps ''error''))
   \<and> state (reply_ctx (PDict [(cps ''user_response'', PInt 5)])) (cps ''user_input'') = None
   \<and> state (snd (resume_gap_asker_tool rt0
      (reply_ctx (PDict [(cps ''user_response'', PInt 5)])))) (cps ''user_input'') = Some (PInt 5)"
  by (simp add: resume_gap_asker_tool_def gap_asker_try_def reply_ctx_def reply_of_def
      subscript_def call_upper_def Let_def status_of_def critique_state_def cps_def)

text \<open>
  C5, amended: a reply without the field \<open>user_response\<close> (its payload is no mapping,
  or a mapping without that key) gives the status \<open>error\<close> and leaves the context, so
  also \<open>user_input\<close>, unchanged; a reply whose field is present but is not a string
  (it is \<open>None\<close>, a boolean, a number, a list or a mapping) gives the status \<open>error\<close>
  too, after the field's value was written to \<open>user_input\<close>.
\<close>

theorem malformed_reply:
  assumes "tool_confirmation ctx = Some tc"
  shows "((\<forall>d. payload tc \<noteq> PDict d)
            \<or> (\<exists>d. payload tc = PDict d \<and> map_of d (cps ''user_response'') = None)
          \<longrightarrow> status_of (fst (resume_gap_asker_tool rt ctx)) = Some (PStr (cps ''error''))
              \<and> snd (resume_gap_asker_tool rt ctx) = ctx)
       \<and> (\<forall>d v. payload tc = PDict d \<and> map_of d (cps ''user_response'') = Some v
                 \<and> (\<forall>s. v \<noteq> PStr s)
          \<longrightarrow> status_of (fst (resume_gap_asker_tool rt ctx)) = Some (PStr (cps ''error''))
              \<and> state (snd (resume_gap_asker_tool rt ctx))
                  = (state ctx)(cps ''user_input'' \<mapsto> v))"
proof (intro conjI impI allI)
  assume "(\<forall>d. payload tc \<noteq> PDict d)
            \<or> (\<exists>d. payload tc = PDict d \<and> map_of d (cps ''user_response'') = None)"
  then obtain e where "subscript (payload tc) (cps ''user_response'') = Inl e"
    using subscript_no_field by blast
  then have "gap_asker_try rt tc ctx = (Inl e, ctx)"
    by (rule gap_asker_try_raise)
  with assms have r: "resume_gap_asker_tool rt ctx =
     (Inr [(cps ''status'', PStr (cps ''error'')),
           (cps ''message'', PStr (cps ''An error occurred: '' @ str_exc rt e))], ctx)"
    by (rule tool_error)
  show "status_of (fst (resume_gap_asker_tool rt ctx)) = Some (PStr (cps ''error''))"
    by (simp add: r status_of_result)
  show "snd (resume_gap_asker_tool rt ctx) = ctx"
    by (simp add: r)
next
  fix d v
  assume a: "payload tc = PDict d \<and> map_of d (cps ''user_response'') = Some v
                 \<and> (\<forall>s. v \<noteq> PStr s)"
  then have "subscript (payload tc) (cps ''user_response'') = Inr v"
    by (simp add: subscript_dict)
  with a have "gap_asker_try rt tc ctx =
     (Inl (Exc AttributeError (NoAttribute v (cps ''upper''))),
      ctx\<lparr>state := (state ctx)(cps ''user_input'' \<mapsto> v)\<rparr>)"
    by (simp add: gap_asker_try_nonstr)
  with assms have r: "resume_gap_asker_tool rt ctx =
     (Inr [(cps ''status'', PStr (cps ''error'')),
           (cps ''message'', PStr (cps ''An error occurred: ''
               @ str_exc rt (Exc AttributeError (NoAttribute v (cps ''upper'')))))],
      ctx\<lparr>state := (state ctx)(cps ''user_input'' \<mapsto> v)\<rparr>)"
    by (rule tool_error)
  show "status_of (fst (resume_gap_asker_tool rt ctx)) = Some (PStr (cps ''error''))"
    by (simp add: r status_of_result)
  show "state (snd (resume_gap_asker_tool rt ctx)) = (state ctx)(cps ''user_input'' \<mapsto> v)"
    by (simp add: r)
qed

theorem malformed_reply_witness:
  "map_of [] (cps ''user_response'') = (None :: pyval option)
   \<and> status_of (fst (resume_gap_asker_tool rt0 (reply_ctx (PDict [])))) = Some (PStr (cps ''error''))
   \<and> snd (resume_gap_asker_tool rt0 (reply_ctx (PDict []))) = reply_ctx (PDict [])
   \<and> map_of [(cps ''user_response'', PList [])] (cps ''user_response'') = Some (PList [])
   \<and> status_of (fst (resume_gap_asker_tool rt0 (reply_ctx (PDict [(cps ''user_response'', PList [])]))))
       = Some (PStr (cps ''error''))
   \<and> state (snd (resume_gap_asker_tool rt0 (reply_ctx (PDict [(cps ''user_response'', PList [])]))))
        (cps ''user_input'') = Some (PList [])"
proof -
  let ?p = "PDict []" and ?q = "PDict [(cps ''user_response'', PList [])]"
  have p: "tool_confirmation (reply_ctx ?p) = Some (reply_of ?p)"
    and q: "tool_confirmation (reply_ctx ?q) = Some (reply_of ?q)"
    by (simp_all add: reply_ctx_def)
  have "payload (reply_of ?p) = ?p" "payload (reply_of ?q) = ?q"
    by (simp_all add: reply_of_def)
  then show ?thesis
    using malformed_reply [OF p, of rt0] malformed_reply [OF q, of rt0] by simp
qed

lemma gap_asker_try_status:
  assumes "gap_asker_try rt tc ctx = (Inr r, ctx1)"
  shows "map_of r (cps ''status'') = Some (PStr (cps ''skipped''))
       \<or> map_of r (cps ''status'') = Some (PStr (cps ''info_collected''))"
  using assms by (auto simp: gap_asker_try_def Let_def split: sum.splits if_splits)

text \<open>
  C6: on every input the collector returns a result, never an exception, and the result
  has a \<open>status\<close> entry, one of the four status texts; whenever the \<open>try\<close> block fails
  with an exception \<open>e\<close>, the result is \<open>{status: error, message: ...}\<close> with the
  description of \<open>e\<close> in the message.
\<close>

theorem always_structured_result:
  "(\<exists>r s. fst (resume_gap_asker_tool rt ctx) = Inr r
          \<and> map_of r (cps ''status'') = Some (PStr s)
          \<and> s \<in> {cps ''awaiting_user_input'', cps ''skipped'', cps ''info_collected'',
                  cps ''error''})
   \<and> (\<forall>tc e. tool_confirmation ctx = Some tc
          \<longrightarrow> fst (gap_asker_try rt tc ctx) = Inl e
          \<longrightarrow> fst (resume_gap_asker_tool rt ctx) =
                Inr [(cps ''status'', PStr (cps ''error'')),
                     (cps ''message'', PStr (cps ''An error occurred: '' @ str_exc rt e))])"
proof (intro conjI allI impI)
  show "\<exists>r s. fst (resume_gap_asker_tool rt ctx) = Inr r
          \<and> map_of r (cps ''status'') = Some (PStr s)
          \<and> s \<in> {cps ''awaiting_user_input'', cps ''skipped'', cps ''info_collected'',
                  cps ''error''}"
  proof (cases "tool_confirmation ctx")
    case None
    then show ?thesis by (simp add: tool_first)
  next
    case (Some tc)
    obtain res ctx1 where t: "gap_asker_try rt tc ctx = (res, ctx1)"
      by (cases "gap_asker_try rt tc ctx")
    show ?thesis
    proof (cases res)
      case (Inl e)
      with Some t show ?thesis by (simp add: tool_reply)
    next
      case (Inr r)
      with t have "map_of r (cps ''status'') = Some (PStr (cps ''skipped''))
          \<or> map_of r (cps ''status'') = Some (PStr (cps ''info_collected''))"
        using gap_asker_try_status by blast
      moreover from Some t Inr have "fst (resume_gap_asker_tool rt ctx) = Inr r"
        by (simp add: tool_reply)
      ultimately show ?thesis by auto
    qed
  qed
next
  fix tc e
  assume "tool_confirmation ctx = Some tc" and "fst (gap_asker_try rt tc ctx) = Inl e"
  then show "fst (resume_gap_asker_tool rt ctx) =
                Inr [(cps ''status'', PStr (cps ''error'')),
                     (cps ''message'', PStr (cps ''An error occurred: '' @ str_exc rt e))]"
    by (cases "gap_asker_try rt tc ctx") (simp add: tool_reply)
qed

theorem always_structured_result_witness:
  "tool_confirmation (reply_ctx PNone) = Some (reply_of PNone)
   \<and> fst (gap_asker_try rt0 (reply_of PNone) (reply_ctx PNone))
       = Inl (Exc TypeError (BadSubscript PNone (cps ''user_response'')))
   \<and> fst (resume_gap_asker_tool rt0 (reply_ctx PNone)) =
       Inr [(cps ''status'', PStr (cps ''error'')),
            (cps ''message'', PStr (cps ''An error occurred: '' @ cps ''fault''))]"
proof -
  have h1: "tool_confirmation (reply_ctx PNone) = Some (reply_of PNone)"
    by (simp add: reply_ctx_def)
  have h2: "fst (gap_asker_try rt0 (reply_of PNone) (reply_ctx PNone))
       = Inl (Exc TypeError (BadSubscript PNone (cps ''user_response'')))"
    by (simp add: gap_asker_try_def reply_of_def subscript_def)
  have "str_exc rt0 (Exc TypeError (BadSubscript PNone (cps ''user_response''))) = cps ''fault''"
    by (simp add: str_exc_def rt0_def)
  with h1 h2 show ?thesis
    using always_structured_result [of rt0 "reply_ctx PNone", THEN conjunct2, rule_format, OF h1 h2]
    by simp
qed

text \<open>
  C7 as stated fails: with no request registered, a reply is accepted; the status is
  \<open>info_collected\<close> and the session state has changed.
\<close>

theorem unsolicited_reply_counterexample:
  "requested (reply_ctx (PDict [(cps ''user_response'', PStr team_reply)])) = []
   \<and> status_of (fst (resume_gap_asker_tool rt0
        (reply_ctx (PDict [(cps ''user_response'', PStr team_reply)]))))
       = Some (PStr (cps ''info_collected''))
   \<and> state (reply_ctx (PDict [(cps ''user_response'', PStr team_reply)])) (cps ''user_input'')
       = None
   \<and> state (snd (resume_gap_asker_tool rt0
        (reply_ctx (PDict [(cps ''user_response'', PStr team_reply)])))) (cps ''user_input'')
       = Some (PStr team_reply)"
proof -
  have "py_upper rt0 team_reply \<noteq> SKIP"
    by (simp add: py_upper_def upper_cp_def team_reply_def SKIP_def cps_def)
  then show ?thesis
    by (simp add: resume_gap_asker_tool_def gap_asker_try_def reply_ctx_def reply_of_def
      subscript_def call_upper_def Let_def status_of_def critique_state_def)
      (simp add: cps_def)
qed

text \<open>
  C7, amended: a call with a confirmation reply does not look at the registered
  requests. With none registered it returns the same result and leaves the same
  session state as with any; a string reply is then accepted, with the status
  \<open>skipped\<close> or \<open>info_collected\<close> and the reply written to \<open>user_input\<close>, and no request
  is registered by the call.
\<close>

theorem reply_ignores_requests:
  assumes "tool_confirmation ctx = Some tc"
  shows "fst (resume_gap_asker_tool rt (ctx\<lparr>requested := []\<rparr>)) = fst (resume_gap_asker_tool rt ctx)
       \<and> state (snd (resume_gap_asker_tool rt (ctx\<lparr>requested := []\<rparr>)))
           = state (snd (resume_gap_asker_tool rt ctx))
       \<and> requested (snd (resume_gap_asker_tool rt (ctx\<lparr>requested := []\<rparr>))) = []
       \<and> (\<forall>d r. payload tc = PDict d \<and> map_of d (cps ''user_response'') = Some (PStr r)
            \<longrightarrow> status_of (fst (resume_gap_asker_tool rt (ctx\<lparr>requested := []\<rparr>)))
                  = Some (PStr (if py_upper rt r = SKIP then cps ''skipped''
                                else cps ''info_collected''))
              \<and> state (snd (resume_gap_asker_tool rt (ctx\<lparr>requested := []\<rparr>)))
                  = (state ctx)(cps ''user_input'' \<mapsto> PStr r))"
proof -
  let ?c = "ctx\<lparr>requested := []\<rparr>"
  have c: "tool_confirmation ?c = Some tc" using assms by simp
  have tr: "gap_asker_try rt tc ?c =
      (fst (gap_asker_try rt tc ctx), (snd (gap_asker_try rt tc ctx))\<lparr>requested := []\<rparr>)"
    by (simp add: gap_asker_try_def Let_def split: sum.splits)
  have tool: "resume_gap_asker_tool rt ?c =
      (fst (resume_gap_asker_tool rt ctx), (snd (resume_gap_asker_tool rt ctx))\<lparr>requested := []\<rparr>)"
    by (cases "gap_asker_try rt tc ctx")
       (simp add: tool_reply [OF c] tool_reply [OF assms] tr split: sum.splits)
  have same_result: "fst (resume_gap_asker_tool rt ?c) = fst (resume_gap_asker_tool rt ctx)"
    and same_state: "state (snd (resume_gap_asker_tool rt ?c))
           = state (snd (resume_gap_asker_tool rt ctx))"
    and none_registered: "requested (snd (resume_gap_asker_tool rt ?c)) = []"
    by (simp_all add: tool)
  have accepted: "status_of (fst (resume_gap_asker_tool rt ?c))
                  = Some (PStr (if py_upper rt r = SKIP then cps ''skipped''
                                else cps ''info_collected''))
              \<and> state (snd (resume_gap_asker_tool rt ?c))
                  = (state ctx)(cps ''user_input'' \<mapsto> PStr r)"
    if "payload tc = PDict d \<and> map_of d (cps ''user_response'') = Some (PStr r)" for d r
  proof -
    from that have "subscript (payload tc) (cps ''user_response'') = Inr (PStr r)"
      by (simp add: subscript_dict)
    then show ?thesis
      by (simp add: tool_reply [OF c] gap_asker_try_str status_of_result)
  qed
  from same_result same_state none_registered accepted show ?thesis
    by blast
qed

theorem reply_ignores_requests_witness:
  "payload (reply_of (PDict [(cps ''user_response'', PStr team_reply)]))
     = PDict [(cps ''user_response'', PStr team_reply)]
   \<and> fst (resume_gap_asker_tool rt0
        ((reply_ctx (PDict [(cps ''user_response'', PStr team_reply)]))\<lparr>requested := []\<rparr>))
     = fst (resume_gap_asker_tool rt0 (reply_ctx (PDict [(cps ''user_response'', PStr team_reply)])))
   \<and> status_of (fst (resume_gap_asker_tool rt0
        ((reply_ctx (PDict [(cps ''user_response'', PStr team_reply)]))\<lparr>requested := []\<rparr>)))
     = Some (PStr (cps ''info_collected''))"
proof -
  let ?p = "PDict [(cps ''user_response'', PStr team_reply)]"
  have h1: "tool_confirmation (reply_ctx ?p) = Some (reply_of ?p)"
    by (simp add: reply_ctx_def)
  have h2: "payload (reply_of ?p) = ?p"
    by (simp add: reply_of_def)
  have h3: "py_upper rt0 team_reply \<noteq> SKIP"
    by (simp add: py_upper_def upper_cp_def team_reply_def SKIP_def cps_def)
  note t = reply_ignores_requests [OF h1, of rt0]
  from t have "fst (resume_gap_asker_tool rt0 ((reply_ctx ?p)\<lparr>requested := []\<rparr>))
     = fst (resume_gap_asker_tool rt0 (reply_ctx ?p))"
    by (rule conjunct1)
  moreover have "map_of [(cps ''user_response'', PStr team_reply)] (cps ''user_response'')
      = Some (PStr team_reply)"
    by simp
  with t h2 have "status_of (fst (resume_gap_asker_tool rt0
        ((reply_ctx ?p)\<lparr>requested := []\<rparr>)))
      = Some (PStr (if py_upper rt0 team_reply = SKIP then cps ''skipped''
                    else cps ''info_collected''))"
    by blast
  with h3 have "status_of (fst (resume_gap_asker_tool rt0
        ((reply_ctx ?p)\<lparr>requested := []\<rparr>))) = Some (PStr (cps ''info_collected''))"
    by simp
  ultimately show ?thesis using h2 by blast
qed

text \<open>
  C10: on every input the collector leaves every key of the session state other than
  \<open>user_input\<close> with the value it had, and every key present before the call is present
  after it.
\<close>

theorem only_user_input_written:
  "(\<forall>k. k \<noteq> cps ''user_input''
        \<longrightarrow> state (snd (resume_gap_asker_tool rt ctx)) k = state ctx k)
   \<and> dom (state ctx) \<subseteq> dom (state (snd (resume_gap_asker_tool rt ctx)))"
proof (cases "tool_confirmation ctx")
  case None
  then show ?thesis by (simp add: tool_first)
next
  case (Some tc)
  then have "snd (resume_gap_asker_tool rt ctx) = snd (gap_asker_try rt tc ctx)"
    by (rule tool_reply_snd)
  moreover have "state (snd (gap_asker_try rt tc ctx)) = state ctx
   \<or> (\<exists>v. state (snd (gap_asker_try rt tc ctx)) = (state ctx)(cps ''user_input'' \<mapsto> v))"
    by (rule gap_asker_try_state)
  ultimately show ?thesis by auto
qed

theorem only_user_input_written_witness:
  "cps ''critique'' \<noteq> cps ''user_input''
   \<and> state (snd (resume_gap_asker_tool rt0
        (reply_ctx (PDict [(cps ''user_response'', PStr SKIP)])))) (cps ''critique'')
     = Some (PStr (cps ''Add a quantified achievement to Project X''))"
proof -
  have h: "cps ''critique'' \<noteq> cps ''user_input''" by (simp add: cps_def)
  have "state (reply_ctx (PDict [(cps ''user_response'', PStr SKIP)])) (cps ''critique'')
     = Some (PStr (cps ''Add a quantified achievement to Project X''))"
    by (simp add: reply_ctx_def critique_state_def)
  with h show ?thesis
    using only_user_input_written [of rt0 "reply_ctx (PDict [(cps ''user_response'', PStr SKIP)])",
        THEN conjunct1, rule_format, OF h]
    by simp
qed

section \<open>Properties of the template loader\<close>

text \<open>
  C8: the template loader returns the full text of the template file when the file is
  there and can be read; when no file is at the path it raises \<open>FileNotFoundError\<close>;
  on any other read error it raises a plain \<open>Exception\<close>, which a handler for
  \<open>FileNotFoundError\<close> does not catch.
\<close>

theorem template_loader_outcomes:
  "(\<forall>t. fs (module_dir @ [cps ''resume.tex'']) = Some (Inr t)
        \<longrightarrow> get_latex_template_tool rt module_dir fs = Inr t)
   \<and> (fs (module_dir @ [cps ''resume.tex'']) = None
        \<longrightarrow> get_latex_template_tool rt module_dir fs =
              Inl (Exc FileNotFoundError
                    (Text (cps ''LaTeX template not found at: ''
                           @ str_of_path rt (module_dir @ [cps ''resume.tex''])))))
   \<and> (\<forall>e. fs (module_dir @ [cps ''resume.tex'']) = Some (Inl e)
            \<and> exc_class e \<noteq> FileNotFoundError
        \<longrightarrow> get_latex_template_tool rt module_dir fs =
              Inl (Exc Exception
                    (Text (cps ''Error reading LaTeX template: '' @ str_exc rt e))))
   \<and> is_subclass FileNotFoundError FileNotFoundError
   \<and> \<not> is_subclass Exception FileNotFoundError"
proof (intro conjI allI impI)
  fix t
  assume "fs (module_dir @ [cps ''resume.tex'']) = Some (Inr t)"
  then show "get_latex_template_tool rt module_dir fs = Inr t"
    by (simp add: get_latex_template_tool_def open_read_def)
next
  assume "fs (module_dir @ [cps ''resume.tex'']) = None"
  then show "get_latex_template_tool rt module_dir fs =
              Inl (Exc FileNotFoundError
                    (Text (cps ''LaTeX template not found at: ''
                           @ str_of_path rt (module_dir @ [cps ''resume.tex'']))))"
    by (simp add: get_latex_template_tool_def open_read_def)
next
  fix e
  assume a: "fs (module_dir @ [cps ''resume.tex'']) = Some (Inl e)
            \<and> exc_class e \<noteq> FileNotFoundError"
  then have "\<not> is_subclass (exc_class e) FileNotFoundError"
    by (cases "exc_class e") simp_all
  with a show "get_latex_template_tool rt module_dir fs =
              Inl (Exc Exception
                    (Text (cps ''Error reading LaTeX template: '' @ str_exc rt e)))"
    by (simp add: get_latex_template_tool_def open_read_def)
qed simp_all

theorem template_loader_outcomes_witness:
  "get_latex_template_tool rt0 [cps ''my_agent'']
       [[cps ''my_agent'', cps ''resume.tex''] \<mapsto> Inr (cps ''Resume template'')]
     = Inr (cps ''Resume template'')
   \<and> get_latex_template_tool rt0 [cps ''my_agent''] Map.empty
     = Inl (Exc FileNotFoundError
             (Text (cps ''LaTeX template not found at: /my_agent/resume.tex'')))
   \<and> get_latex_template_tool rt0 [cps ''my_agent'']
       [[cps ''my_agent'', cps ''resume.tex''] \<mapsto> Inl (Exc PermissionError (Text (cps ''denied'')))]
     = Inl (Exc Exception (Text (cps ''Error reading LaTeX template: denied'')))"
proof -
  let ?p = "[cps ''my_agent'', cps ''resume.tex'']"
  let ?ok = "[?p \<mapsto> Inr (cps ''Resume template'')] :: filesystem"
  let ?bad = "[?p \<mapsto> Inl (Exc PermissionError (Text (cps ''denied'')))] :: filesystem"
  have "?ok ([cps ''my_agent''] @ [cps ''resume.tex'']) = Some (Inr (cps ''Resume template''))"
    by simp
  then have a: "get_latex_template_tool rt0 [cps ''my_agent''] ?ok = Inr (cps ''Resume template'')"
    using template_loader_outcomes [of ?ok "[cps ''my_agent'']" rt0] by blast
  have "(Map.empty :: filesystem) ([cps ''my_agent''] @ [cps ''resume.tex'']) = None"
    by simp
  then have "get_latex_template_tool rt0 [cps ''my_agent''] Map.empty
     = Inl (Exc FileNotFoundError
             (Text (cps ''LaTeX template not found at: ''
                    @ str_of_path rt0 ([cps ''my_agent''] @ [cps ''resume.tex'']))))"
    using template_loader_outcomes [of Map.empty "[cps ''my_agent'']" rt0] by blast
  then have b: "get_latex_template_tool rt0 [cps ''my_agent''] Map.empty
     = Inl (Exc FileNotFoundError
             (Text (cps ''LaTeX template not found at: /my_agent/resume.tex'')))"
    by (simp add: rt0_def cps_def)
  have "?bad ([cps ''my_agent''] @ [cps ''resume.tex''])
          = Some (Inl (Exc PermissionError (Text (cps ''denied''))))
        \<and> exc_class (Exc PermissionError (Text (cps ''denied''))) \<noteq> FileNotFoundError"
    by simp
  then have "get_latex_template_tool rt0 [cps ''my_agent''] ?bad
     = Inl (Exc Exception (Text (cps ''Error reading LaTeX template: ''
              @ str_exc rt0 (Exc PermissionError (Text (cps ''denied''))))))"
    using template_loader_outcomes [of ?bad "[cps ''my_agent'']" rt0] by blast
  then have c: "get_latex_template_tool rt0 [cps ''my_agent''] ?bad
     = Inl (Exc Exception (Text (cps ''Error reading LaTeX template: denied'')))"
    by (simp add: str_exc_def cps_def)
  from a b c show ?thesis by blast
qed

section \<open>Properties of the artifact writer\<close>

lemma encode_x: "encode_utf8 (cps ''x'') = Inr [120]"
  by (simp add: encode_utf8_def is_surrogate_def utf8_cp_def cps_def)

lemma str_int_0: "str_int 0 = [48]"
  by (simp add: str_int_def dec_nat.simps [of 0])

lemma save_configured:
  assumes "encode_utf8 latex_content = Inr bytes" and "artifact_service ctx = Some (Service st)"
  shows "save_generated_resume_latex rt ctx latex_content =
     (Inr (PDict
        [(cps ''status'', PStr (cps ''success'')),
         (cps ''message'',
          PStr (cps ''File '' @ [39] @ cps ''generated_resume_latex.tex'' @ [39]
                @ cps '' (version ''
                @ str_int (int (length (st (cps ''generated_resume_latex.tex''))))
                @ cps '') has been created and is now available for download.''))]),
      ctx\<lparr>artifact_service := Some (Service
        (st(cps ''generated_resume_latex.tex'' :=
              st (cps ''generated_resume_latex.tex'')
              @ [\<lparr>mime_type = cps ''text/plain'', data = bytes\<rparr>])))\<rparr>,
      [])"
  using assms by (simp add: save_generated_resume_latex_def save_artifact_def Let_def)

lemma save_raises:
  assumes "encode_utf8 latex_content = Inr bytes"
    and "save_artifact ctx (cps ''generated_resume_latex.tex'')
           \<lparr>mime_type = cps ''text/plain'', data = bytes\<rparr> = (Inl e, ctx1)"
  shows "save_generated_resume_latex rt ctx latex_content =
     (Inr PNone, ctx1,
      [if is_subclass (exc_class e) ValueError
       then cps ''Error saving LaTeX artifact: '' @ str_exc rt e
            @ cps ''. Is ArtifactService configured in Runner?''
       else cps ''An unexpected error occurred during LaTeX artifact save: '' @ str_exc rt e])"
  using assms by (simp add: save_generated_resume_latex_def Let_def)

text \<open>
  C9 as stated fails: the service gives the version 0, and the writer returns a result
  with a status and a message, not that number.
\<close>

theorem artifact_writer_counterexample:
  "fst (save_artifact (service_ctx (Some (Service (\<lambda>f. []))))
          (cps ''generated_resume_latex.tex'')
          \<lparr>mime_type = cps ''text/plain'', data = [120]\<rparr>) = Inr 0
   \<and> fst (save_generated_resume_latex rt0 (service_ctx (Some (Service (\<lambda>f. [])))) (cps ''x''))
       = Inr (PDict
          [(cps ''status'', PStr (cps ''success'')),
           (cps ''message'',
            PStr (cps ''File '' @ [39] @ cps ''generated_resume_latex.tex'' @ [39]
                  @ cps '' (version 0) has been created and is now available for download.''))])
   \<and> fst (save_generated_resume_latex rt0 (service_ctx (Some (Service (\<lambda>f. [])))) (cps ''x''))
       \<noteq> Inr (PInt 0)"
proof -
  have s: "artifact_service (service_ctx (Some (Service (\<lambda>f. [])))) = Some (Service (\<lambda>f. []))"
    by (simp add: service_ctx_def)
  have "fst (save_artifact (service_ctx (Some (Service (\<lambda>f. []))))
          (cps ''generated_resume_latex.tex'')
          \<lparr>mime_type = cps ''text/plain'', data = [120]\<rparr>) = Inr 0"
    by (simp add: save_artifact_def s)
  moreover have "fst (save_generated_resume_latex rt0 (service_ctx (Some (Service (\<lambda>f. [])))) (cps ''x''))
       = Inr (PDict
          [(cps ''status'', PStr (cps ''success'')),
           (cps ''message'',
            PStr (cps ''File '' @ [39] @ cps ''generated_resume_latex.tex'' @ [39]
                  @ cps '' (version 0) has been created and is now available for download.''))])"
    by (simp add: save_configured [OF encode_x s] str_int_0) (simp add: cps_def)
  ultimately show ?thesis by simp
qed

text \<open>
  C9, amended: when the content encodes as UTF-8, the artifact writer persists those
  bytes as \<open>text/plain\<close> under the fixed filename, as the next version of that filename
  in the artifact service, and returns \<open>{status: success, message: ...}\<close>, where the
  message contains the version number in decimal; the number itself is not returned.
  When no service is configured, or the service fails, the writer returns \<open>None\<close> in
  both cases and saves nothing; it prints one line, and the line printed for a
  \<open>ValueError\<close> (no service configured) differs from the line printed for any other
  exception.
\<close>

theorem artifact_writer_outcomes:
  assumes "encode_utf8 latex_content = Inr bytes"
  shows "(\<forall>st. artifact_service ctx = Some (Service st) \<longrightarrow>
            save_generated_resume_latex rt ctx latex_content =
              (Inr (PDict
                 [(cps ''status'', PStr (cps ''success'')),
                  (cps ''message'',
                   PStr (cps ''File '' @ [39] @ cps ''generated_resume_latex.tex'' @ [39]
                         @ cps '' (version ''
                         @ str_int (int (length (st (cps ''generated_resume_latex.tex''))))
                         @ cps '') has been created and is now available for download.''))]),
               ctx\<lparr>artifact_service := Some (Service
                 (st(cps ''generated_resume_latex.tex'' :=
                       st (cps ''generated_resume_latex.tex'')
                       @ [\<lparr>mime_type = cps ''text/plain'', data = bytes\<rparr>])))\<rparr>,
               []))
       \<and> (artifact_service ctx = None \<longrightarrow>
            save_generated_resume_latex rt ctx latex_content =
              (Inr PNone, ctx,
               [cps ''Error saving LaTeX artifact: ''
                @ exc_text rt NoArtifactService
                @ cps ''. Is ArtifactService configured in Runner?'']))
       \<and> (\<forall>e. artifact_service ctx = Some (Faulty e) \<longrightarrow>
            save_generated_resume_latex rt ctx latex_content =
              (Inr PNone, ctx,
               [if is_subclass (exc_class e) ValueError
                then cps ''Error saving LaTeX artifact: '' @ str_exc rt e
                     @ cps ''. Is ArtifactService configured in Runner?''
                else cps ''An unexpected error occurred during LaTeX artifact save: ''
                     @ str_exc rt e]))
       \<and> (\<forall>a b. cps ''Error saving LaTeX artifact: '' @ a
                   @ cps ''. Is ArtifactService configured in Runner?''
                 \<noteq> cps ''An unexpected error occurred during LaTeX artifact save: '' @ b)"
proof (intro conjI allI impI)
  fix st
  assume "artifact_service ctx = Some (Service st)"
  with assms show "save_generated_resume_latex rt ctx latex_content =
              (Inr (PDict
                 [(cps ''status'', PStr (cps ''success'')),
                  (cps ''message'',
                   PStr (cps ''File '' @ [39] @ cps ''generated_resume_latex.tex'' @ [39]
                         @ cps '' (version ''
                         @ str_int (int (length (st (cps ''generated_resume_latex.tex''))))
                         @ cps '') has been created and is now available for download.''))]),
               ctx\<lparr>artifact_service := Some (Service
                 (st(cps ''generated_resume_latex.tex'' :=
                       st (cps ''generated_resume_latex.tex'')
                       @ [\<lparr>mime_type = cps ''text/plain'', data = bytes\<rparr>])))\<rparr>,
               [])"
    by (rule save_configured)
next
  assume "artifact_service ctx = None"
  then have "save_artifact ctx (cps ''generated_resume_latex.tex'')
           \<lparr>mime_type = cps ''text/plain'', data = bytes\<rparr>
      = (Inl (Exc ValueError NoArtifactService), ctx)"
    by (simp add: save_artifact_def)
  then show "save_generated_resume_latex rt ctx latex_content =
              (Inr PNone, ctx,
               [cps ''Error saving LaTeX artifact: ''
                @ exc_text rt NoArtifactService
                @ cps ''. Is ArtifactService configured in Runner?''])"
    by (simp add: save_raises [OF assms] str_exc_def)
next
  fix e
  assume "artifact_service ctx = Some (Faulty e)"
  then have "save_artifact ctx (cps ''generated_resume_latex.tex'')
           \<lparr>mime_type = cps ''text/plain'', data = bytes\<rparr> = (Inl e, ctx)"
    by (simp add: save_artifact_def)
  then show "save_generated_resume_latex rt ctx latex_content =
              (Inr PNone, ctx,
               [if is_subclass (exc_class e) ValueError
                then cps ''Error saving LaTeX artifact: '' @ str_exc rt e
                     @ cps ''. Is ArtifactService configured in Runner?''
                else cps ''An unexpected error occurred during LaTeX artifact save: ''
                     @ str_exc rt e])"
    by (rule save_raises [OF assms])
next
  fix a b :: pystr
  show "cps ''Error saving LaTeX artifact: '' @ a
                   @ cps ''. Is ArtifactService configured in Runner?''
                 \<noteq> cps ''An unexpected error occurred during LaTeX artifact save: '' @ b"
    by (simp add: cps_def)
qed

theorem artifact_writer_outcomes_witness:
  "encode_utf8 (cps ''x'') = Inr [120]
   \<and> fst (save_generated_resume_latex rt0
          (service_ctx (Some (Service (\<lambda>f. [\<lparr>mime_type = [], data = []\<rparr>])))) (cps ''x''))
       = Inr (PDict
          [(cps ''status'', PStr (cps ''success'')),
           (cps ''message'',
            PStr (cps ''File '' @ [39] @ cps ''generated_resume_latex.tex'' @ [39]
                  @ cps '' (version 1) has been created and is now available for download.''))])
   \<and> artifact_service (fst (snd (save_generated_resume_latex rt0
          (service_ctx (Some (Service (\<lambda>f. [\<lparr>mime_type = [], data = []\<rparr>])))) (cps ''x''))))
       = Some (Service ((\<lambda>f. [\<lparr>mime_type = [], data = []\<rparr>])
           (cps ''generated_resume_latex.tex'' :=
              [\<lparr>mime_type = [], data = []\<rparr>, \<lparr>mime_type = cps ''text/plain'', data = [120]\<rparr>])))
   \<and> save_generated_resume_latex rt0 (service_ctx None) (cps ''x'')
       = (Inr PNone, service_ctx None,
          [cps ''Error saving LaTeX artifact: '' @ cps ''fault''
           @ cps ''. Is ArtifactService configured in Runner?''])
   \<and> save_generated_resume_latex rt0
         (service_ctx (Some (Faulty (Exc OSError (Text (cps ''disk full'')))))) (cps ''x'')
       = (Inr PNone, service_ctx (Some (Faulty (Exc OSError (Text (cps ''disk full''))))),
          [cps ''An unexpected error occurred during LaTeX artifact save: '' @ cps ''disk full''])"
proof -
  let ?st = "\<lambda>f :: pystr. [\<lparr>mime_type = [], data = []\<rparr>]"
  let ?fault = "Exc OSError (Text (cps ''disk full''))"
  have s: "artifact_service (service_ctx (Some (Service ?st))) = Some (Service ?st)"
    and n: "artifact_service (service_ctx None) = None"
    and f: "artifact_service (service_ctx (Some (Faulty ?fault))) = Some (Faulty ?fault)"
    by (simp_all add: service_ctx_def)
  have one: "str_int 1 = [49]"
    by (simp add: str_int_def dec_nat.simps [of "Suc 0"])
  from s have "save_generated_resume_latex rt0 (service_ctx (Some (Service ?st))) (cps ''x'') =
      (Inr (PDict
         [(cps ''status'', PStr (cps ''success'')),
          (cps ''message'',
           PStr (cps ''File '' @ [39] @ cps ''generated_resume_latex.tex'' @ [39]
                 @ cps '' (version ''
                 @ str_int (int (length (?st (cps ''generated_resume_latex.tex''))))
                 @ cps '') has been created and is now available for download.''))]),
       (service_ctx (Some (Service ?st)))\<lparr>artifact_service := Some (Service
         (?st(cps ''generated_resume_latex.tex'' :=
                ?st (cps ''generated_resume_latex.tex'')
                @ [\<lparr>mime_type = cps ''text/plain'', data = [120]\<rparr>])))\<rparr>,
       [])"
    using artifact_writer_outcomes [OF encode_x, of "service_ctx (Some (Service ?st))" rt0]
    by blast
  then have saved: "fst (save_generated_resume_latex rt0 (service_ctx (Some (Service ?st))) (cps ''x''))
       = Inr (PDict
          [(cps ''status'', PStr (cps ''success'')),
           (cps ''message'',
            PStr (cps ''File '' @ [39] @ cps ''generated_resume_latex.tex'' @ [39]
                  @ cps '' (version 1) has been created and is now available for download.''))])"
    and stored: "artifact_service (fst (snd (save_generated_resume_latex rt0
          (service_ctx (Some (Service ?st))) (cps ''x''))))
       = Some (Service (?st
           (cps ''generated_resume_latex.tex'' :=
              [\<lparr>mime_type = [], data = []\<rparr>, \<lparr>mime_type = cps ''text/plain'', data = [120]\<rparr>])))"
    by (simp_all add: one) (simp add: cps_def)
  from n have unconfigured: "save_generated_resume_latex rt0 (service_ctx None) (cps ''x'')
       = (Inr PNone, service_ctx None,
          [cps ''Error saving LaTeX artifact: '' @ exc_text rt0 NoArtifactService
           @ cps ''. Is ArtifactService configured in Runner?''])"
    using artifact_writer_outcomes [OF encode_x, of "service_ctx None" rt0] by blast
  from f have "save_generated_resume_latex rt0 (service_ctx (Some (Faulty ?fault))) (cps ''x'')
       = (Inr PNone, service_ctx (Some (Faulty ?fault)),
          [if is_subclass (exc_class ?fault) ValueError
           then cps ''Error saving LaTeX artifact: '' @ str_exc rt0 ?fault
                @ cps ''. Is ArtifactService configured in Runner?''
           else cps ''An unexpected error occurred during LaTeX artifact save: ''
                @ str_exc rt0 ?fault])"
    using artifact_writer_outcomes [OF encode_x, of "service_ctx (Some (Faulty ?fault))" rt0]
    by blast
  then have faulty: "save_generated_resume_latex rt0 (service_ctx (Some (Faulty ?fault))) (cps ''x'')
       = (Inr PNone, service_ctx (Some (Faulty ?fault)),
          [cps ''An unexpected error occurred during LaTeX artifact save: '' @ cps ''disk full''])"
    by (simp add: str_exc_def)
  have "exc_text rt0 NoArtifactService = cps ''fault''"
    by (simp add: rt0_def)
  with unconfigured saved stored faulty show ?thesis
    using encode_x by simp
qed

end
